theory Spec2Isabelle
  imports Main
begin

section \<open>The deployment lifecycle orchestrator of lib/appscale_tools.py\<close>

text \<open>
  The class \<open>AppScaleTools\<close> sequences calls to collaborators (\<open>LocalState\<close>,
  \<open>RemoteHelper\<close>, \<open>AppControllerClient\<close>, \<open>UserAppClient\<close>, \<open>AppEngineHelper\<close>,
  \<open>NodeLayout\<close>, \<open>AppScaleLogger\<close>) whose code is not part of the excerpt. Each method
  is embedded as a function of an explicit state: the local file system and the trace of
  every collaborator call made so far, with its outcome. What a collaborator answers is a
  parameter (the \<open>world\<close>): it may depend on the whole state at the time of the call, and
  it may be an exception. An exception raised by a callee is a value \<open>Inl e\<close> that ends
  the method, as in Python.
\<close>

subsection \<open>Exceptions\<close>

text \<open>
  \<open>AppScaleException\<close> and \<open>BadConfigurationException\<close> come from \<open>custom_exceptions\<close>;
  \<open>ShellException\<close> is what \<open>RemoteHelper.ssh\<close> throws (line 77); \<open>OSError\<close> is what
  \<open>os.mkdir\<close> and \<open>shutil.rmtree\<close> raise; \<open>Exception\<close> stands for any other subclass of
  Python's \<open>Exception\<close>. Each carries its message.
\<close>

datatype error =
    AppScaleException string
  | BadConfigurationException string
  | ShellException string
  | OSError string
  | Exception string

text \<open>\<open>str(e)\<close> of an exception built from one message.\<close>

fun str_of_error :: "error \<Rightarrow> string" where
  "str_of_error (AppScaleException m) = m"
| "str_of_error (BadConfigurationException m) = m"
| "str_of_error (ShellException m) = m"
| "str_of_error (OSError m) = m"
| "str_of_error (Exception m) = m"

subsection \<open>Options, node layouts and RPC clients\<close>

text \<open>
  The fields of the argparse namespace that the modelled methods read. \<open>ips\<close> is the
  dict from role to address, as an association list in the dict's iteration order.
  Flags that default to \<open>None\<close> are options.
\<close>

record options =
  ips :: "(string \<times> string) list"
  keyname :: string
  verbose :: bool
  infrastructure :: "string option"
  force :: bool
  admin_user :: "string option"
  admin_pass :: "string option"
  test :: bool
  file_arg :: string
  email :: "string option"
  location :: string

text \<open>Python's truth value of a flag that is \<open>None\<close> or a string.\<close>

fun truthy :: "string option \<Rightarrow> bool" where
  "truthy None = False"
| "truthy (Some v) = (v \<noteq> [])"

text \<open>
  What the methods read of a \<open>NodeLayout\<close>: \<open>is_valid()\<close>, \<open>is_supported()\<close> and
  \<open>str(errors())\<close>.
\<close>

record node_layout =
  is_valid :: bool
  is_supported :: bool
  errors :: string

text \<open>\<open>AppControllerClient(host, secret)\<close> and \<open>UserAppClient(host, secret)\<close>.\<close>

record client =
  host :: string
  secret :: string

definition AppControllerClient :: "string \<Rightarrow> string \<Rightarrow> client" where
  "AppControllerClient h k = \<lparr>host = h, secret = k\<rparr>"

definition UserAppClient :: "string \<Rightarrow> string \<Rightarrow> client" where
  "UserAppClient h k = \<lparr>host = h, secret = k\<rparr>"

subsection \<open>Calls, replies and the trace\<close>

text \<open>One constructor per collaborator method, with the arguments of the call.\<close>

datatype request =
    MakeAppscaleDirectory
  | GetFromYaml string string
  | GetLoginHost string
  | GetSecretKey string
  | GetCredentials
  | GetInfrastructure string
  | ExtractAppToDir string bool
  | GetUsernameFromStdin bool
  | GetPasswordFromStdin
  | NewNodeLayout options
  | Uuid4
  | RemoteLogToolsState options string string string
  | Ssh string string string bool
  | StartHeadNode options string node_layout
  | CopyLocalMetadata string string bool
  | SleepUntilPortIsOpen string int bool
  | CreateUserAccounts string string string string
  | WaitForMachinesToFinishLoading string string
  | TerminateCloudInfrastructure string bool
  | TerminateVirtualizedCluster string bool
  | CopyAppToHost string string bool
  | ScpRemoteToLocal string string string string bool
  | StartRolesOnNodes client "(string \<times> string) list"
  | GetAllPublicIps client
  | GetStatus client
  | GetUaserverHost client bool
  | DoneUploading client string string
  | Update client "string list"
  | SetAdminRole client string
  | DoesUserExist client string
  | DoesAppExist client string
  | GetAppAdmin client string
  | ReserveAppId client string string string
  | GetServingInfo client string string
  | GetAppIdFromAppConfig string
  | GetAppRuntimeFromAppConfig string
  | ValidateAppId string

datatype reply =
    RNone
  | RBool bool
  | RStr string
  | RStrOpt "string option"
  | RStrs "string list"
  | RPair string string
  | RHostPort string int
  | RLayout node_layout

text \<open>
  The trace: collaborator calls with what they returned or raised, the three kinds of
  \<open>AppScaleLogger\<close> output, and \<open>time.sleep\<close>.
\<close>

datatype event =
    Call request "error + reply"
  | Log string
  | Warn string
  | Success string
  | Sleep nat

text \<open>
  The state a method runs in: the trace so far and the paths that exist in the local
  file system (directories and metadata files).
\<close>

record state =
  trace :: "event list"
  paths :: "string set"

text \<open>The events a run from \<open>s\<close> to \<open>s'\<close> added.\<close>

definition new_events :: "state \<Rightarrow> state \<Rightarrow> event list" where
  "new_events s s' = drop (length (trace s)) (trace s')"

subsection \<open>Actions: state passing with exceptions\<close>

type_synonym 'a action = "state \<Rightarrow> (error + 'a) \<times> state"

definition ret :: "'a \<Rightarrow> 'a action" where
  "ret x s = (Inr x, s)"

definition raise :: "error \<Rightarrow> 'a action" where
  "raise e s = (Inl e, s)"

text \<open>Sequencing: an exception of the first action skips the rest.\<close>

definition andthen :: "'a action \<Rightarrow> ('a \<Rightarrow> 'b action) \<Rightarrow> 'b action" where
  "andthen m f s = (case m s of (Inl e, s') \<Rightarrow> (Inl e, s') | (Inr x, s') \<Rightarrow> f x s')"

text \<open>\<open>try: m except Exception as e: h e\<close>.\<close>

definition try_except :: "'a action \<Rightarrow> (error \<Rightarrow> 'a action) \<Rightarrow> 'a action" where
  "try_except m h s = (case m s of (Inl e, s') \<Rightarrow> h e s' | (Inr x, s') \<Rightarrow> (Inr x, s'))"

text \<open>\<open>for x in xs: body x\<close>.\<close>

fun for_each :: "'a list \<Rightarrow> ('a \<Rightarrow> unit action) \<Rightarrow> unit action" where
  "for_each [] body = ret ()"
| "for_each (x # xs) body = andthen (body x) (\<lambda>_. for_each xs body)"

text \<open>
  A collaborator call: the world's answer in the current state is recorded in the trace
  and handed back.
\<close>

definition call :: "request \<Rightarrow> ('a \<Rightarrow> reply) \<Rightarrow> (state \<Rightarrow> error + 'a) \<Rightarrow> 'a action" where
  "call req wrap f s =
     (let r = f s in
      (r, s\<lparr>trace := trace s @ [Call req (case r of Inl e \<Rightarrow> Inl e | Inr x \<Rightarrow> Inr (wrap x))]\<rparr>))"

definition emit :: "event \<Rightarrow> unit action" where
  "emit e s = (Inr (), s\<lparr>trace := trace s @ [e]\<rparr>)"

text \<open>\<open>AppScaleLogger.log\<close>, \<open>.warn\<close>, \<open>.success\<close> and \<open>time.sleep\<close>.\<close>

definition AppScaleLogger_log :: "string \<Rightarrow> unit action" where
  "AppScaleLogger_log msg = emit (Log msg)"

definition AppScaleLogger_warn :: "string \<Rightarrow> unit action" where
  "AppScaleLogger_warn msg = emit (Warn msg)"

definition AppScaleLogger_success :: "string \<Rightarrow> unit action" where
  "AppScaleLogger_success msg = emit (Success msg)"

definition time_sleep :: "nat \<Rightarrow> unit action" where
  "time_sleep n = emit (Sleep n)"

subsection \<open>The world: what the collaborators answer\<close>

text \<open>
  The collaborators' modules are not in the excerpt, so their answers are parameters,
  grouped by class. Every answer may be an exception.
\<close>

record local_state_world =
  make_appscale_directory :: "state \<Rightarrow> error + unit"
  get_from_yaml :: "state \<Rightarrow> string \<Rightarrow> string \<Rightarrow> error + string"
  get_login_host :: "state \<Rightarrow> string \<Rightarrow> error + string"
  get_secret_key :: "state \<Rightarrow> string \<Rightarrow> error + string"
  get_credentials :: "state \<Rightarrow> error + string \<times> string"
  get_infrastructure :: "state \<Rightarrow> string \<Rightarrow> error + string"
  extract_app_to_dir :: "state \<Rightarrow> string \<Rightarrow> bool \<Rightarrow> error + string"
  get_username_from_stdin :: "state \<Rightarrow> bool \<Rightarrow> error + string"
  get_password_from_stdin :: "state \<Rightarrow> error + string"
  get_locations_yaml_location :: "string \<Rightarrow> string"
  DEFAULT_USER :: string
  DEFAULT_PASSWORD :: string

record remote_helper_world =
  ssh :: "state \<Rightarrow> string \<Rightarrow> string \<Rightarrow> string \<Rightarrow> bool \<Rightarrow> error + unit"
  start_head_node :: "state \<Rightarrow> options \<Rightarrow> string \<Rightarrow> node_layout \<Rightarrow> error + string \<times> string"
  copy_local_metadata :: "state \<Rightarrow> string \<Rightarrow> string \<Rightarrow> bool \<Rightarrow> error + unit"
  sleep_until_port_is_open :: "state \<Rightarrow> string \<Rightarrow> int \<Rightarrow> bool \<Rightarrow> error + unit"
  create_user_accounts :: "state \<Rightarrow> string \<Rightarrow> string \<Rightarrow> string \<Rightarrow> string \<Rightarrow> error + unit"
  wait_for_machines_to_finish_loading :: "state \<Rightarrow> string \<Rightarrow> string \<Rightarrow> error + unit"
  terminate_cloud_infrastructure :: "state \<Rightarrow> string \<Rightarrow> bool \<Rightarrow> error + unit"
  terminate_virtualized_cluster :: "state \<Rightarrow> string \<Rightarrow> bool \<Rightarrow> error + unit"
  copy_app_to_host :: "state \<Rightarrow> string \<Rightarrow> string \<Rightarrow> bool \<Rightarrow> error + string"
  scp_remote_to_local :: "state \<Rightarrow> string \<Rightarrow> string \<Rightarrow> string \<Rightarrow> string \<Rightarrow> bool \<Rightarrow> error + unit"
  APP_DASHBOARD_PORT :: int

record app_controller_world =
  start_roles_on_nodes :: "state \<Rightarrow> client \<Rightarrow> (string \<times> string) list \<Rightarrow> error + unit"
  get_all_public_ips :: "state \<Rightarrow> client \<Rightarrow> error + string list"
  get_status :: "state \<Rightarrow> client \<Rightarrow> error + string"
  get_uaserver_host :: "state \<Rightarrow> client \<Rightarrow> bool \<Rightarrow> error + string"
  done_uploading :: "state \<Rightarrow> client \<Rightarrow> string \<Rightarrow> string \<Rightarrow> error + unit"
  update :: "state \<Rightarrow> client \<Rightarrow> string list \<Rightarrow> error + unit"

record user_app_world =
  set_admin_role :: "state \<Rightarrow> client \<Rightarrow> string \<Rightarrow> error + unit"
  does_user_exist :: "state \<Rightarrow> client \<Rightarrow> string \<Rightarrow> error + bool"
  does_app_exist :: "state \<Rightarrow> client \<Rightarrow> string \<Rightarrow> error + bool"
  get_app_admin :: "state \<Rightarrow> client \<Rightarrow> string \<Rightarrow> error + string option"
  reserve_app_id :: "state \<Rightarrow> client \<Rightarrow> string \<Rightarrow> string \<Rightarrow> string \<Rightarrow> error + unit"
  get_serving_info :: "state \<Rightarrow> client \<Rightarrow> string \<Rightarrow> string \<Rightarrow> error + string \<times> int"
  PORT :: int

record misc_world =
  get_app_id_from_app_config :: "state \<Rightarrow> string \<Rightarrow> error + string"
  get_app_runtime_from_app_config :: "state \<Rightarrow> string \<Rightarrow> error + string"
  validate_app_id :: "state \<Rightarrow> string \<Rightarrow> error + unit"
  new_node_layout :: "state \<Rightarrow> options \<Rightarrow> error + node_layout"
  uuid4 :: "state \<Rightarrow> error + string"
  remote_log_tools_state :: "state \<Rightarrow> options \<Rightarrow> string \<Rightarrow> string \<Rightarrow> string \<Rightarrow> error + unit"
  APPSCALE_VERSION :: string
  VALID_AGENTS :: "string list"

record world =
  LocalState :: local_state_world
  RemoteHelper :: remote_helper_world
  AppController :: app_controller_world
  UserApp :: user_app_world
  Misc :: misc_world

subsection \<open>The collaborators' methods as actions\<close>

definition LocalState_make_appscale_directory :: "world \<Rightarrow> unit action" where
  "LocalState_make_appscale_directory w =
     call MakeAppscaleDirectory (\<lambda>_. RNone) (\<lambda>s. make_appscale_directory (LocalState w) s)"

definition LocalState_get_from_yaml :: "world \<Rightarrow> string \<Rightarrow> string \<Rightarrow> string action" where
  "LocalState_get_from_yaml w k tag =
     call (GetFromYaml k tag) RStr (\<lambda>s. get_from_yaml (LocalState w) s k tag)"

definition LocalState_get_login_host :: "world \<Rightarrow> string \<Rightarrow> string action" where
  "LocalState_get_login_host w k =
     call (GetLoginHost k) RStr (\<lambda>s. get_login_host (LocalState w) s k)"

definition LocalState_get_secret_key :: "world \<Rightarrow> string \<Rightarrow> string action" where
  "LocalState_get_secret_key w k =
     call (GetSecretKey k) RStr (\<lambda>s. get_secret_key (LocalState w) s k)"

definition LocalState_get_credentials :: "world \<Rightarrow> (string \<times> string) action" where
  "LocalState_get_credentials w =
     call GetCredentials (\<lambda>(u, p). RPair u p) (\<lambda>s. get_credentials (LocalState w) s)"

definition LocalState_get_infrastructure :: "world \<Rightarrow> string \<Rightarrow> string action" where
  "LocalState_get_infrastructure w k =
     call (GetInfrastructure k) RStr (\<lambda>s. get_infrastructure (LocalState w) s k)"

definition LocalState_get_username_from_stdin :: "world \<Rightarrow> bool \<Rightarrow> string action" where
  "LocalState_get_username_from_stdin w is_admin =
     call (GetUsernameFromStdin is_admin) RStr
       (\<lambda>s. get_username_from_stdin (LocalState w) s is_admin)"

definition LocalState_get_password_from_stdin :: "world \<Rightarrow> string action" where
  "LocalState_get_password_from_stdin w =
     call GetPasswordFromStdin RStr (\<lambda>s. get_password_from_stdin (LocalState w) s)"

definition NodeLayout :: "world \<Rightarrow> options \<Rightarrow> node_layout action" where
  "NodeLayout w opts = call (NewNodeLayout opts) RLayout (\<lambda>s. new_node_layout (Misc w) s opts)"

definition uuid_uuid4 :: "world \<Rightarrow> string action" where
  "uuid_uuid4 w = call Uuid4 RStr (\<lambda>s. uuid4 (Misc w) s)"

definition AppScaleLogger_remote_log_tools_state ::
  "world \<Rightarrow> options \<Rightarrow> string \<Rightarrow> string \<Rightarrow> string \<Rightarrow> unit action" where
  "AppScaleLogger_remote_log_tools_state w opts my_id st version =
     call (RemoteLogToolsState opts my_id st version) (\<lambda>_. RNone)
       (\<lambda>s. remote_log_tools_state (Misc w) s opts my_id st version)"

definition AppEngineHelper_get_app_id_from_app_config :: "world \<Rightarrow> string \<Rightarrow> string action" where
  "AppEngineHelper_get_app_id_from_app_config w dir =
     call (GetAppIdFromAppConfig dir) RStr (\<lambda>s. get_app_id_from_app_config (Misc w) s dir)"

definition AppEngineHelper_get_app_runtime_from_app_config ::
  "world \<Rightarrow> string \<Rightarrow> string action" where
  "AppEngineHelper_get_app_runtime_from_app_config w dir =
     call (GetAppRuntimeFromAppConfig dir) RStr
       (\<lambda>s. get_app_runtime_from_app_config (Misc w) s dir)"

definition AppEngineHelper_validate_app_id :: "world \<Rightarrow> string \<Rightarrow> unit action" where
  "AppEngineHelper_validate_app_id w app_id =
     call (ValidateAppId app_id) (\<lambda>_. RNone) (\<lambda>s. validate_app_id (Misc w) s app_id)"

definition RemoteHelper_ssh :: "world \<Rightarrow> string \<Rightarrow> string \<Rightarrow> string \<Rightarrow> bool \<Rightarrow> unit action" where
  "RemoteHelper_ssh w ip k cmd v =
     call (Ssh ip k cmd v) (\<lambda>_. RNone) (\<lambda>s. ssh (RemoteHelper w) s ip k cmd v)"

definition RemoteHelper_start_head_node ::
  "world \<Rightarrow> options \<Rightarrow> string \<Rightarrow> node_layout \<Rightarrow> (string \<times> string) action" where
  "RemoteHelper_start_head_node w opts my_id layout =
     call (StartHeadNode opts my_id layout) (\<lambda>(ip, inst). RPair ip inst)
       (\<lambda>s. start_head_node (RemoteHelper w) s opts my_id layout)"

definition RemoteHelper_copy_local_metadata :: "world \<Rightarrow> string \<Rightarrow> string \<Rightarrow> bool \<Rightarrow> unit action" where
  "RemoteHelper_copy_local_metadata w ip k v =
     call (CopyLocalMetadata ip k v) (\<lambda>_. RNone) (\<lambda>s. copy_local_metadata (RemoteHelper w) s ip k v)"

definition RemoteHelper_sleep_until_port_is_open ::
  "world \<Rightarrow> string \<Rightarrow> int \<Rightarrow> bool \<Rightarrow> unit action" where
  "RemoteHelper_sleep_until_port_is_open w h port v =
     call (SleepUntilPortIsOpen h port v) (\<lambda>_. RNone)
       (\<lambda>s. sleep_until_port_is_open (RemoteHelper w) s h port v)"

definition RemoteHelper_create_user_accounts ::
  "world \<Rightarrow> string \<Rightarrow> string \<Rightarrow> string \<Rightarrow> string \<Rightarrow> unit action" where
  "RemoteHelper_create_user_accounts w u p h k =
     call (CreateUserAccounts u p h k) (\<lambda>_. RNone)
       (\<lambda>s. create_user_accounts (RemoteHelper w) s u p h k)"

definition RemoteHelper_wait_for_machines_to_finish_loading ::
  "world \<Rightarrow> string \<Rightarrow> string \<Rightarrow> unit action" where
  "RemoteHelper_wait_for_machines_to_finish_loading w ip k =
     call (WaitForMachinesToFinishLoading ip k) (\<lambda>_. RNone)
       (\<lambda>s. wait_for_machines_to_finish_loading (RemoteHelper w) s ip k)"

definition RemoteHelper_terminate_cloud_infrastructure :: "world \<Rightarrow> string \<Rightarrow> bool \<Rightarrow> unit action" where
  "RemoteHelper_terminate_cloud_infrastructure w k v =
     call (TerminateCloudInfrastructure k v) (\<lambda>_. RNone)
       (\<lambda>s. terminate_cloud_infrastructure (RemoteHelper w) s k v)"

definition RemoteHelper_terminate_virtualized_cluster :: "world \<Rightarrow> string \<Rightarrow> bool \<Rightarrow> unit action" where
  "RemoteHelper_terminate_virtualized_cluster w k v =
     call (TerminateVirtualizedCluster k v) (\<lambda>_. RNone)
       (\<lambda>s. terminate_virtualized_cluster (RemoteHelper w) s k v)"

definition RemoteHelper_copy_app_to_host :: "world \<Rightarrow> string \<Rightarrow> string \<Rightarrow> bool \<Rightarrow> string action" where
  "RemoteHelper_copy_app_to_host w dir k v =
     call (CopyAppToHost dir k v) RStr (\<lambda>s. copy_app_to_host (RemoteHelper w) s dir k v)"

definition RemoteHelper_scp_remote_to_local ::
  "world \<Rightarrow> string \<Rightarrow> string \<Rightarrow> string \<Rightarrow> string \<Rightarrow> bool \<Rightarrow> unit action" where
  "RemoteHelper_scp_remote_to_local w ip k src dst v =
     call (ScpRemoteToLocal ip k src dst v) (\<lambda>_. RNone)
       (\<lambda>s. scp_remote_to_local (RemoteHelper w) s ip k src dst v)"

definition acc_start_roles_on_nodes ::
  "world \<Rightarrow> client \<Rightarrow> (string \<times> string) list \<Rightarrow> unit action" where
  "acc_start_roles_on_nodes w acc roles =
     call (StartRolesOnNodes acc roles) (\<lambda>_. RNone)
       (\<lambda>s. start_roles_on_nodes (AppController w) s acc roles)"

definition acc_get_all_public_ips :: "world \<Rightarrow> client \<Rightarrow> string list action" where
  "acc_get_all_public_ips w acc =
     call (GetAllPublicIps acc) RStrs (\<lambda>s. get_all_public_ips (AppController w) s acc)"

definition acc_get_status :: "world \<Rightarrow> client \<Rightarrow> string action" where
  "acc_get_status w acc = call (GetStatus acc) RStr (\<lambda>s. get_status (AppController w) s acc)"

definition acc_get_uaserver_host :: "world \<Rightarrow> client \<Rightarrow> bool \<Rightarrow> string action" where
  "acc_get_uaserver_host w acc v =
     call (GetUaserverHost acc v) RStr (\<lambda>s. get_uaserver_host (AppController w) s acc v)"

definition acc_done_uploading :: "world \<Rightarrow> client \<Rightarrow> string \<Rightarrow> string \<Rightarrow> unit action" where
  "acc_done_uploading w acc app_id remote_path =
     call (DoneUploading acc app_id remote_path) (\<lambda>_. RNone)
       (\<lambda>s. done_uploading (AppController w) s acc app_id remote_path)"

definition acc_update :: "world \<Rightarrow> client \<Rightarrow> string list \<Rightarrow> unit action" where
  "acc_update w acc apps =
     call (Update acc apps) (\<lambda>_. RNone) (\<lambda>s. update (AppController w) s acc apps)"

definition uac_set_admin_role :: "world \<Rightarrow> client \<Rightarrow> string \<Rightarrow> unit action" where
  "uac_set_admin_role w uac u =
     call (SetAdminRole uac u) (\<lambda>_. RNone) (\<lambda>s. set_admin_role (UserApp w) s uac u)"

definition uac_does_user_exist :: "world \<Rightarrow> client \<Rightarrow> string \<Rightarrow> bool action" where
  "uac_does_user_exist w uac u =
     call (DoesUserExist uac u) RBool (\<lambda>s. does_user_exist (UserApp w) s uac u)"

definition uac_does_app_exist :: "world \<Rightarrow> client \<Rightarrow> string \<Rightarrow> bool action" where
  "uac_does_app_exist w uac app_id =
     call (DoesAppExist uac app_id) RBool (\<lambda>s. does_app_exist (UserApp w) s uac app_id)"

definition uac_get_app_admin :: "world \<Rightarrow> client \<Rightarrow> string \<Rightarrow> string option action" where
  "uac_get_app_admin w uac app_id =
     call (GetAppAdmin uac app_id) RStrOpt (\<lambda>s. get_app_admin (UserApp w) s uac app_id)"

definition uac_reserve_app_id ::
  "world \<Rightarrow> client \<Rightarrow> string \<Rightarrow> string \<Rightarrow> string \<Rightarrow> unit action" where
  "uac_reserve_app_id w uac u app_id lang =
     call (ReserveAppId uac u app_id lang) (\<lambda>_. RNone)
       (\<lambda>s. reserve_app_id (UserApp w) s uac u app_id lang)"

definition uac_get_serving_info ::
  "world \<Rightarrow> client \<Rightarrow> string \<Rightarrow> string \<Rightarrow> (string \<times> int) action" where
  "uac_get_serving_info w uac app_id k =
     call (GetServingInfo uac app_id k) (\<lambda>(h, p). RHostPort h p)
       (\<lambda>s. get_serving_info (UserApp w) s uac app_id k)"

subsection \<open>The local file system\<close>

text \<open>\<open>os.path.exists\<close> reads the state; nothing is recorded.\<close>

definition os_path_exists :: "string \<Rightarrow> bool action" where
  "os_path_exists p s = (Inr (p \<in> paths s), s)"

text \<open>\<open>os.mkdir\<close> raises \<open>OSError\<close> when the path exists, and creates it otherwise.\<close>

definition os_mkdir :: "string \<Rightarrow> unit action" where
  "os_mkdir p s =
     (if p \<in> paths s then (Inl (OSError ''File exists''), s)
      else (Inr (), s\<lparr>paths := insert p (paths s)\<rparr>))"

text \<open>
  \<open>shutil.rmtree\<close> raises \<open>OSError\<close> when the path does not exist, and removes it and
  every path below it otherwise.
\<close>

definition below :: "string \<Rightarrow> string \<Rightarrow> bool" where
  "below p q = (q = p \<or> take (length p + 1) q = p @ ''/'')"

definition shutil_rmtree :: "string \<Rightarrow> unit action" where
  "shutil_rmtree p s =
     (if p \<notin> paths s then (Inl (OSError ''No such file or directory''), s)
      else (Inr (), s\<lparr>paths := Set.filter (\<lambda>q. \<not> below p q) (paths s)\<rparr>))"

text \<open>
  Modelled from the spec: \<open>LocalState.get_locations_yaml_location\<close>,
  \<open>update_local_metadata\<close>, \<open>cleanup_appscale_files\<close> and
  \<open>ensure_appscale_isnt_running\<close> are not in the excerpt. The spec's Deployment Metadata
  Store has \<open>exists(keyname)\<close>, \<open>save(keyname, metadata)\<close> and \<open>delete(keyname)\<close>: the record
  of a deployment is the file at \<open>get_locations_yaml_location keyname\<close> (a parameter of the
  world), which \<open>save\<close> creates and \<open>delete\<close> removes. The precondition of \<open>run\<close> is "no
  existing live deployment under this keyname (checked against DeploymentMetadata) unless
  a force flag is set".
\<close>

definition LocalState_get_locations_yaml_location :: "world \<Rightarrow> string \<Rightarrow> string" where
  "LocalState_get_locations_yaml_location w k = get_locations_yaml_location (LocalState w) k"

definition LocalState_update_local_metadata ::
  "world \<Rightarrow> options \<Rightarrow> node_layout \<Rightarrow> string \<Rightarrow> string \<Rightarrow> unit action" where
  "LocalState_update_local_metadata w opts layout public_ip instance_id s =
     (Inr (), s\<lparr>paths := insert (LocalState_get_locations_yaml_location w (keyname opts)) (paths s)\<rparr>)"

definition LocalState_cleanup_appscale_files :: "world \<Rightarrow> string \<Rightarrow> unit action" where
  "LocalState_cleanup_appscale_files w k s =
     (Inr (), s\<lparr>paths := paths s - {LocalState_get_locations_yaml_location w k}\<rparr>)"

definition LocalState_ensure_appscale_isnt_running :: "world \<Rightarrow> string \<Rightarrow> bool \<Rightarrow> unit action" where
  "LocalState_ensure_appscale_isnt_running w k forced s =
     (if LocalState_get_locations_yaml_location w k \<in> paths s \<and> \<not> forced
      then (Inl (BadConfigurationException ''AppScale is already running''), s)
      else (Inr (), s))"

text \<open>
  Modelled from the spec: \<open>LocalState.extract_app_to_dir\<close> is not in the excerpt.
  "Compressed bundles are extracted to a temporary directory": the world names the
  directory (or raises), and the directory then exists.
\<close>

definition LocalState_extract_app_to_dir :: "world \<Rightarrow> string \<Rightarrow> bool \<Rightarrow> string action" where
  "LocalState_extract_app_to_dir w f v =
     andthen (call (ExtractAppToDir f v) RStr (\<lambda>s. extract_app_to_dir (LocalState w) s f v))
       (\<lambda>dir s. (Inr dir, s\<lparr>paths := insert dir (paths s)\<rparr>))"

subsection \<open>String helpers\<close>

text \<open>\<open>str(n)\<close> of an integer, for \<open>"{1}".format(serving_port)\<close>.\<close>

definition digit :: "nat \<Rightarrow> char" where
  "digit d =
     (if d = 0 then CHR ''0'' else if d = 1 then CHR ''1'' else if d = 2 then CHR ''2''
      else if d = 3 then CHR ''3'' else if d = 4 then CHR ''4'' else if d = 5 then CHR ''5''
      else if d = 6 then CHR ''6'' else if d = 7 then CHR ''7'' else if d = 8 then CHR ''8''
      else CHR ''9'')"

fun str_nat :: "nat \<Rightarrow> string" where
  "str_nat n = (if n < 10 then [digit n] else str_nat (n div 10) @ [digit (n mod 10)])"

declare str_nat.simps [simp del]

definition str_int :: "int \<Rightarrow> string" where
  "str_int i = (if i < 0 then ''-'' @ str_nat (nat (- i)) else str_nat (nat i))"

text \<open>
  \<open>TAR_GZ_REGEX = re.compile('.tar.gz\Z')\<close> and \<open>TAR_GZ_REGEX.search(name)\<close> (lines 54, 401):
  the dots are not escaped, so each matches any character but a newline, and \<open>\Z\<close> is the
  end of the string.
\<close>

definition TAR_GZ_REGEX_search :: "string \<Rightarrow> bool" where
  "TAR_GZ_REGEX_search name =
     (case rev name of
        z # g # d2 # r # a # t # d1 # _ \<Rightarrow>
          d1 \<noteq> CHR 0x0A \<and> t = CHR ''t'' \<and> a = CHR ''a'' \<and> r = CHR ''r'' \<and>
          d2 \<noteq> CHR 0x0A \<and> g = CHR ''g'' \<and> z = CHR ''z''
      | _ \<Rightarrow> False)"

subsection \<open>add_instances (lines 57-91)\<close>

definition add_instances :: "world \<Rightarrow> options \<Rightarrow> unit action" where
  "add_instances w options =
     (if ''master'' \<in> set (map fst (ips options)) then
        raise (BadConfigurationException
          (''Cannot add master nodes to an '' @ ''already running AppScale deployment.''))
      else
        andthen (NodeLayout w options) (\<lambda>additional_nodes_layout.
        andthen (LocalState_get_from_yaml w (keyname options) ''infrastructure'') (\<lambda>infra.
        andthen (if infra = ''xen'' then
                   for_each (map snd (ips options)) (\<lambda>ip.
                     RemoteHelper_ssh w ip (keyname options) ''ls'' (verbose options))
                 else ret ()) (\<lambda>_.
        andthen (AppScaleLogger_log ''Sending request to add instances'') (\<lambda>_.
        andthen (LocalState_get_login_host w (keyname options)) (\<lambda>login_ip.
        andthen (LocalState_get_secret_key w (keyname options)) (\<lambda>secret_key.
        let acc = AppControllerClient login_ip secret_key in
        andthen (acc_start_roles_on_nodes w acc (ips options)) (\<lambda>_.
        AppScaleLogger_success
          (''Successfully sent request to add instances '' @
           ''to this AppScale deployment.'')))))))))"

subsection \<open>describe_instances (lines 150-172)\<close>

definition describe_instances :: "world \<Rightarrow> options \<Rightarrow> unit action" where
  "describe_instances w options =
     andthen (LocalState_get_login_host w (keyname options)) (\<lambda>login_host.
     andthen (LocalState_get_secret_key w (keyname options)) (\<lambda>login_secret.
     let login_acc = AppControllerClient login_host login_secret in
     andthen (acc_get_all_public_ips w login_acc) (\<lambda>all_ips.
     andthen (for_each all_ips (\<lambda>ip.
                andthen (LocalState_get_secret_key w (keyname options)) (\<lambda>secret_key.
                let acc = AppControllerClient ip secret_key in
                andthen (AppScaleLogger_log (''Status of node at '' @ ip @ '':'')) (\<lambda>_.
                try_except
                  (andthen (acc_get_status w acc) (\<lambda>status. AppScaleLogger_log status))
                  (\<lambda>e. AppScaleLogger_warn
                     (''Unable to contact machine: '' @ str_of_error e @ [CHR 0x0A])))))) (\<lambda>_.
     AppScaleLogger_success
       (''View status information about your AppScale '' @
        ''deployment at http://'' @ login_host @ ''/status'')))))"

subsection \<open>gather_logs (lines 175-204)\<close>

definition gather_logs :: "world \<Rightarrow> options \<Rightarrow> unit action" where
  "gather_logs w options =
     andthen (os_path_exists (location options)) (\<lambda>location_exists.
     if location_exists then
       raise (AppScaleException
         (''Can't gather logs, as the location you '' @
          ''specified, '' @ location options @ '', already exists.''))
     else
       andthen (LocalState_get_login_host w (keyname options)) (\<lambda>login_host.
       andthen (LocalState_get_secret_key w (keyname options)) (\<lambda>secret_key.
       let acc = AppControllerClient login_host secret_key in
       andthen (os_mkdir (location options)) (\<lambda>_.
       andthen (acc_get_all_public_ips w acc) (\<lambda>all_ips.
       andthen (for_each all_ips (\<lambda>ip.
                  let local_dir = location options @ ''/'' @ ip in
                  andthen (os_mkdir local_dir) (\<lambda>_.
                  RemoteHelper_scp_remote_to_local w ip (keyname options)
                    ''/var/log/appscale'' local_dir (verbose options)))) (\<lambda>_.
       AppScaleLogger_success (''Successfully copied logs to '' @ location options)))))))"

subsection \<open>run_instances (lines 267-361)\<close>

text \<open>The resolution of the admin credentials, lines 334-341 of \<open>run_instances\<close>.\<close>

definition admin_credentials :: "world \<Rightarrow> options \<Rightarrow> (string \<times> string) action" where
  "admin_credentials w options =
     (if truthy (admin_user options) \<and> truthy (admin_pass options) then
        andthen (AppScaleLogger_log ''Using the provided admin username/password'') (\<lambda>_.
        ret (the (admin_user options), the (admin_pass options)))
      else if test options then
        andthen (AppScaleLogger_log ''Using default admin username/password'') (\<lambda>_.
        ret (DEFAULT_USER (LocalState w), DEFAULT_PASSWORD (LocalState w)))
      else LocalState_get_credentials w)"

definition run_instances :: "world \<Rightarrow> options \<Rightarrow> unit action" where
  "run_instances w options =
     andthen (LocalState_make_appscale_directory w) (\<lambda>_.
     andthen (LocalState_ensure_appscale_isnt_running w (keyname options) (force options)) (\<lambda>_.
     andthen (if truthy (infrastructure options) then
                AppScaleLogger_log (''Starting AppScale '' @ APPSCALE_VERSION (Misc w) @
                  '' over the '' @ the (infrastructure options) @ '' cloud.'')
              else
                AppScaleLogger_log (''Starting AppScale '' @ APPSCALE_VERSION (Misc w) @
                  '' over a virtualized cluster.'')) (\<lambda>_.
     andthen (uuid_uuid4 w) (\<lambda>my_id.
     andthen (AppScaleLogger_remote_log_tools_state w options my_id ''started''
                (APPSCALE_VERSION (Misc w))) (\<lambda>_.
     andthen (NodeLayout w options) (\<lambda>layout.
     if \<not> is_valid layout then
       raise (BadConfigurationException
         (''There were errors with your '' @ ''placement strategy:'' @ [CHR 0x0A] @ errors layout))
     else
       andthen (if \<not> is_supported layout then
                  AppScaleLogger_warn (''Warning: This deployment strategy is not '' @
                    ''officially supported.'')
                else ret ()) (\<lambda>_.
       andthen (RemoteHelper_start_head_node w options my_id layout) (\<lambda>(public_ip, instance_id).
       andthen (AppScaleLogger_log ([CHR 0x0A] @ ''Please wait for AppScale to prepare your machines '' @
                  ''for use.'')) (\<lambda>_.
       andthen (LocalState_update_local_metadata w options layout public_ip instance_id) (\<lambda>_.
       andthen (RemoteHelper_copy_local_metadata w public_ip (keyname options) (verbose options)) (\<lambda>_.
       andthen (LocalState_get_secret_key w (keyname options)) (\<lambda>acc_secret.
       let acc = AppControllerClient public_ip acc_secret in
       andthen (acc_get_uaserver_host w acc (verbose options)) (\<lambda>uaserver_host.
       andthen (RemoteHelper_sleep_until_port_is_open w uaserver_host (PORT (UserApp w))
                  (verbose options)) (\<lambda>_.
       andthen (LocalState_update_local_metadata w options layout public_ip instance_id) (\<lambda>_.
       andthen (RemoteHelper_copy_local_metadata w public_ip (keyname options) (verbose options)) (\<lambda>_.
       andthen (AppScaleLogger_log (''UserAppServer is at '' @ uaserver_host)) (\<lambda>_.
       andthen (LocalState_get_secret_key w (keyname options)) (\<lambda>uac_secret.
       let uaserver_client = UserAppClient uaserver_host uac_secret in
       andthen (admin_credentials w options) (\<lambda>(username, password).
       andthen (RemoteHelper_create_user_accounts w username password uaserver_host
                  (keyname options)) (\<lambda>_.
       andthen (uac_set_admin_role w uaserver_client username) (\<lambda>_.
       andthen (RemoteHelper_wait_for_machines_to_finish_loading w public_ip (keyname options)) (\<lambda>_.
       andthen (LocalState_update_local_metadata w options layout public_ip instance_id) (\<lambda>_.
       andthen (RemoteHelper_copy_local_metadata w public_ip (keyname options) (verbose options)) (\<lambda>_.
       andthen (LocalState_get_login_host w (keyname options)) (\<lambda>dashboard_host.
       andthen (RemoteHelper_sleep_until_port_is_open w dashboard_host
                  (APP_DASHBOARD_PORT (RemoteHelper w)) (verbose options)) (\<lambda>_.
       andthen (AppScaleLogger_success ''AppScale successfully started!'') (\<lambda>_.
       andthen (LocalState_get_login_host w (keyname options)) (\<lambda>login_host.
       andthen (AppScaleLogger_success
                  (''View status information about your AppScale '' @
                   ''deployment at http://'' @ login_host @ ''/status'')) (\<lambda>_.
       AppScaleLogger_remote_log_tools_state w options my_id ''finished''
         (APPSCALE_VERSION (Misc w)))))))))))))))))))))))))))))))"

subsection \<open>terminate_instances (lines 364-387)\<close>

definition terminate_instances :: "world \<Rightarrow> options \<Rightarrow> unit action" where
  "terminate_instances w options =
     andthen (os_path_exists (LocalState_get_locations_yaml_location w (keyname options)))
       (\<lambda>metadata_exists.
     if \<not> metadata_exists then
       raise (AppScaleException
         (''AppScale is not running with the keyname '' @ keyname options))
     else
       andthen (LocalState_get_infrastructure w (keyname options)) (\<lambda>infra.
       andthen (if infra \<in> set (VALID_AGENTS (Misc w)) then
                  RemoteHelper_terminate_cloud_infrastructure w (keyname options) (verbose options)
                else
                  RemoteHelper_terminate_virtualized_cluster w (keyname options) (verbose options))
         (\<lambda>_.
       andthen (LocalState_cleanup_appscale_files w (keyname options)) (\<lambda>_.
       AppScaleLogger_success ''Successfully shut down your AppScale deployment.''))))"

subsection \<open>upload_app (lines 390-468)\<close>

definition upload_app :: "world \<Rightarrow> options \<Rightarrow> (string \<times> int) action" where
  "upload_app w options =
     andthen (if TAR_GZ_REGEX_search (file_arg options) then
                andthen (LocalState_extract_app_to_dir w (file_arg options) (verbose options))
                  (\<lambda>dir. ret (dir, True))
              else ret (file_arg options, False)) (\<lambda>(file_location, created_dir).
     andthen (AppEngineHelper_get_app_id_from_app_config w file_location) (\<lambda>app_id.
     andthen (AppEngineHelper_get_app_runtime_from_app_config w file_location) (\<lambda>app_language.
     andthen (AppEngineHelper_validate_app_id w app_id) (\<lambda>_.
     andthen (LocalState_get_login_host w (keyname options)) (\<lambda>login_host.
     andthen (LocalState_get_secret_key w (keyname options)) (\<lambda>acc_secret.
     let acc = AppControllerClient login_host acc_secret in
     andthen (acc_get_uaserver_host w acc (verbose options)) (\<lambda>userappserver_host.
     andthen (LocalState_get_secret_key w (keyname options)) (\<lambda>uac_secret.
     let userappclient = UserAppClient userappserver_host uac_secret in
     andthen (if test options then ret (DEFAULT_USER (LocalState w))
              else if truthy (email options) then ret (the (email options))
              else LocalState_get_username_from_stdin w False) (\<lambda>username.
     andthen (uac_does_user_exist w userappclient username) (\<lambda>user_exists.
     andthen (if \<not> user_exists then
                andthen (LocalState_get_password_from_stdin w) (\<lambda>password.
                RemoteHelper_create_user_accounts w username password userappserver_host
                  (keyname options))
              else ret ()) (\<lambda>_.
     andthen (uac_does_app_exist w userappclient app_id) (\<lambda>app_exists.
     andthen (uac_get_app_admin w userappclient app_id) (\<lambda>app_admin.
     if app_admin \<noteq> None \<and> Some username \<noteq> app_admin then
       raise (AppScaleException
         (''The given user doesn't own this application'' @
          '', so they can't upload an app with that application ID. Please '' @
          ''change the application ID and try again.''))
     else
       andthen (if app_exists then
                  AppScaleLogger_log (''Uploading new version of app '' @ app_id)
                else
                  andthen (AppScaleLogger_log (''Uploading initial version of app '' @ app_id)) (\<lambda>_.
                  uac_reserve_app_id w userappclient username app_id app_language)) (\<lambda>_.
       andthen (RemoteHelper_copy_app_to_host w file_location (keyname options) (verbose options))
         (\<lambda>remote_file_path.
       andthen (acc_done_uploading w acc app_id remote_file_path) (\<lambda>_.
       andthen (acc_update w acc [app_id]) (\<lambda>_.
       andthen (AppScaleLogger_log ''Please wait for your app to start serving.'') (\<lambda>_.
       andthen (if app_exists then time_sleep 20 else ret ()) (\<lambda>_.
       andthen (uac_get_serving_info w userappclient app_id (keyname options))
         (\<lambda>(serving_host, serving_port).
       andthen (RemoteHelper_sleep_until_port_is_open w serving_host serving_port (verbose options))
         (\<lambda>_.
       andthen (AppScaleLogger_success
                  (''Your app can be reached at the following URL: '' @
                   ''http://'' @ serving_host @ '':'' @ str_int serving_port)) (\<lambda>_.
       andthen (if created_dir then shutil_rmtree file_location else ret ()) (\<lambda>_.
       ret (serving_host, serving_port))))))))))))))))))))))))"

section \<open>Auxiliary definitions for the proofs\<close>

subsection \<open>The two phases of upload_app\<close>

text \<open>
  \<open>upload_app\<close> is cut at the ownership check of line 434: \<open>upload_app_prepare\<close> is lines
  401-433 and returns the local variables of the method at that point,
  \<open>upload_app_deploy\<close> is lines 434-468. Lemma \<open>upload_app_phases\<close> below proves that
  \<open>upload_app\<close> is their sequence.
\<close>

record upload_locals =
  ctx_file_location :: string
  ctx_created_dir :: bool
  ctx_app_id :: string
  ctx_app_language :: string
  ctx_acc :: client
  ctx_userappclient :: client
  ctx_username :: string
  ctx_app_exists :: bool
  ctx_app_admin :: "string option"

definition upload_app_prepare :: "world \<Rightarrow> options \<Rightarrow> upload_locals action" where
  "upload_app_prepare w options =
     andthen (if TAR_GZ_REGEX_search (file_arg options) then
                andthen (LocalState_extract_app_to_dir w (file_arg options) (verbose options))
                  (\<lambda>dir. ret (dir, True))
              else ret (file_arg options, False)) (\<lambda>(file_location, created_dir).
     andthen (AppEngineHelper_get_app_id_from_app_config w file_location) (\<lambda>app_id.
     andthen (AppEngineHelper_get_app_runtime_from_app_config w file_location) (\<lambda>app_language.
     andthen (AppEngineHelper_validate_app_id w app_id) (\<lambda>_.
     andthen (LocalState_get_login_host w (keyname options)) (\<lambda>login_host.
     andthen (LocalState_get_secret_key w (keyname options)) (\<lambda>acc_secret.
     let acc = AppControllerClient login_host acc_secret in
     andthen (acc_get_uaserver_host w acc (verbose options)) (\<lambda>userappserver_host.
     andthen (LocalState_get_secret_key w (keyname options)) (\<lambda>uac_secret.
     let userappclient = UserAppClient userappserver_host uac_secret in
     andthen (if test options then ret (DEFAULT_USER (LocalState w))
              else if truthy (email options) then ret (the (email options))
              else LocalState_get_username_from_stdin w False) (\<lambda>username.
     andthen (uac_does_user_exist w userappclient username) (\<lambda>user_exists.
     andthen (if \<not> user_exists then
                andthen (LocalState_get_password_from_stdin w) (\<lambda>password.
                RemoteHelper_create_user_accounts w username password userappserver_host
                  (keyname options))
              else ret ()) (\<lambda>_.
     andthen (uac_does_app_exist w userappclient app_id) (\<lambda>app_exists.
     andthen (uac_get_app_admin w userappclient app_id) (\<lambda>app_admin.
     ret \<lparr>ctx_file_location = file_location, ctx_created_dir = created_dir,
          ctx_app_id = app_id, ctx_app_language = app_language, ctx_acc = acc,
          ctx_userappclient = userappclient, ctx_username = username,
          ctx_app_exists = app_exists, ctx_app_admin = app_admin\<rparr>)))))))))))))"

text \<open>The message of the exception of lines 435-437.\<close>

definition not_owner_message :: string where
  "not_owner_message =
     ''The given user doesn't own this application'' @
     '', so they can't upload an app with that application ID. Please '' @
     ''change the application ID and try again.''"

definition upload_app_deploy :: "world \<Rightarrow> options \<Rightarrow> upload_locals \<Rightarrow> (string \<times> int) action" where
  "upload_app_deploy w options ctx =
     (if ctx_app_admin ctx \<noteq> None \<and> Some (ctx_username ctx) \<noteq> ctx_app_admin ctx then
       raise (AppScaleException not_owner_message)
     else
       andthen (if ctx_app_exists ctx then
                  AppScaleLogger_log (''Uploading new version of app '' @ ctx_app_id ctx)
                else
                  andthen (AppScaleLogger_log (''Uploading initial version of app '' @ ctx_app_id ctx)) (\<lambda>_.
                  uac_reserve_app_id w (ctx_userappclient ctx) (ctx_username ctx) (ctx_app_id ctx)
                    (ctx_app_language ctx))) (\<lambda>_.
       andthen (RemoteHelper_copy_app_to_host w (ctx_file_location ctx) (keyname options)
                  (verbose options)) (\<lambda>remote_file_path.
       andthen (acc_done_uploading w (ctx_acc ctx) (ctx_app_id ctx) remote_file_path) (\<lambda>_.
       andthen (acc_update w (ctx_acc ctx) [ctx_app_id ctx]) (\<lambda>_.
       andthen (AppScaleLogger_log ''Please wait for your app to start serving.'') (\<lambda>_.
       andthen (if ctx_app_exists ctx then time_sleep 20 else ret ()) (\<lambda>_.
       andthen (uac_get_serving_info w (ctx_userappclient ctx) (ctx_app_id ctx) (keyname options))
         (\<lambda>(serving_host, serving_port).
       andthen (RemoteHelper_sleep_until_port_is_open w serving_host serving_port (verbose options))
         (\<lambda>_.
       andthen (AppScaleLogger_success
                  (''Your app can be reached at the following URL: '' @
                   ''http://'' @ serving_host @ '':'' @ str_int serving_port)) (\<lambda>_.
       andthen (if ctx_created_dir ctx then shutil_rmtree (ctx_file_location ctx) else ret ()) (\<lambda>_.
       ret (serving_host, serving_port))))))))))))"

subsection \<open>Observations of a trace\<close>

text \<open>The requests of the collaborator calls of a trace, in order.\<close>

definition requests :: "event list \<Rightarrow> request list" where
  "requests evs = concat (map (\<lambda>e. case e of Call req _ \<Rightarrow> [req] | _ \<Rightarrow> []) evs)"

text \<open>\<open>reserve_app_id\<close>, \<open>done_uploading\<close> and \<open>update\<close>.\<close>

definition mutates_app :: "request \<Rightarrow> bool" where
  "mutates_app req =
     (case req of ReserveAppId _ _ _ _ \<Rightarrow> True | DoneUploading _ _ _ \<Rightarrow> True
      | Update _ _ \<Rightarrow> True | _ \<Rightarrow> False)"

definition is_user_query :: "event \<Rightarrow> bool" where
  "is_user_query e = (case e of Call (DoesUserExist _ _) _ \<Rightarrow> True | _ \<Rightarrow> False)"

definition is_exists_answer :: "event \<Rightarrow> bool" where
  "is_exists_answer e = (case e of Call (DoesAppExist _ _) (Inr _) \<Rightarrow> True | _ \<Rightarrow> False)"

definition is_admin_answer :: "event \<Rightarrow> bool" where
  "is_admin_answer e = (case e of Call (GetAppAdmin _ _) (Inr _) \<Rightarrow> True | _ \<Rightarrow> False)"

text \<open>A collaborator call that raised.\<close>

definition raised :: "event \<Rightarrow> bool" where
  "raised e = (case e of Call _ (Inl _) \<Rightarrow> True | _ \<Rightarrow> False)"

subsection \<open>What an action adds to the trace\<close>

text \<open>
  \<open>adds m P\<close>: from every state, \<open>m\<close> only appends events to the trace, and its result and
  the appended events satisfy \<open>P\<close>.
\<close>

definition adds :: "'a action \<Rightarrow> (error + 'a \<Rightarrow> event list \<Rightarrow> bool) \<Rightarrow> bool" where
  "adds m P = (\<forall>s. case m s of (r, s') \<Rightarrow> \<exists>evs. trace s' = trace s @ evs \<and> P r evs)"

text \<open>The facts about the two phases of \<open>upload_app\<close> that the proofs share.\<close>

definition rejected :: "upload_locals \<Rightarrow> bool" where
  "rejected ctx = (ctx_app_admin ctx \<noteq> None \<and> Some (ctx_username ctx) \<noteq> ctx_app_admin ctx)"

definition uploading_line :: "upload_locals \<Rightarrow> string" where
  "uploading_line ctx =
     (if ctx_app_exists ctx then ''Uploading new version of app '' @ ctx_app_id ctx
      else ''Uploading initial version of app '' @ ctx_app_id ctx)"

definition reachable_line :: "string \<Rightarrow> int \<Rightarrow> string" where
  "reachable_line h p =
     ''Your app can be reached at the following URL: '' @ ''http://'' @ h @ '':'' @ str_int p"

definition prepared :: "upload_locals \<Rightarrow> event list \<Rightarrow> bool" where
  "prepared ctx evs =
     ((\<exists>answer. filter is_user_query evs =
         [Call (DoesUserExist (ctx_userappclient ctx) (ctx_username ctx)) answer]) \<and>
      filter is_exists_answer evs =
        [Call (DoesAppExist (ctx_userappclient ctx) (ctx_app_id ctx)) (Inr (RBool (ctx_app_exists ctx)))] \<and>
      filter is_admin_answer evs =
        [Call (GetAppAdmin (ctx_userappclient ctx) (ctx_app_id ctx)) (Inr (RStrOpt (ctx_app_admin ctx)))] \<and>
      evs \<noteq> [] \<and>
      last evs = Call (GetAppAdmin (ctx_userappclient ctx) (ctx_app_id ctx))
                   (Inr (RStrOpt (ctx_app_admin ctx))))"

definition deployed_events :: "options \<Rightarrow> upload_locals \<Rightarrow> string \<Rightarrow> string \<Rightarrow> int \<Rightarrow> event list" where
  "deployed_events options ctx remote_path h p =
     Log (uploading_line ctx) #
     (if ctx_app_exists ctx then []
      else [Call (ReserveAppId (ctx_userappclient ctx) (ctx_username ctx)
                    (ctx_app_id ctx) (ctx_app_language ctx)) (Inr RNone)]) @
     [Call (CopyAppToHost (ctx_file_location ctx) (keyname options) (verbose options))
        (Inr (RStr remote_path)),
      Call (DoneUploading (ctx_acc ctx) (ctx_app_id ctx) remote_path) (Inr RNone),
      Call (Update (ctx_acc ctx) [ctx_app_id ctx]) (Inr RNone),
      Log ''Please wait for your app to start serving.''] @
     (if ctx_app_exists ctx then [Sleep 20] else []) @
     [Call (GetServingInfo (ctx_userappclient ctx) (ctx_app_id ctx) (keyname options))
        (Inr (RHostPort h p)),
      Call (SleepUntilPortIsOpen h p (verbose options)) (Inr RNone),
      Success (reachable_line h p)]"

definition deployed :: "options \<Rightarrow> upload_locals \<Rightarrow> error + string \<times> int \<Rightarrow> event list \<Rightarrow> bool" where
  "deployed options ctx r evs =
     (filter is_user_query evs = [] \<and> filter is_exists_answer evs = [] \<and>
      filter is_admin_answer evs = [] \<and>
      (if rejected ctx then r = Inl (AppScaleException not_owner_message) \<and> evs = []
       else (\<exists>rest. evs = Log (uploading_line ctx) # rest) \<and>
            (\<forall>h p. r = Inr (h, p) \<longrightarrow>
               (\<exists>remote_path. evs = deployed_events options ctx remote_path h p))))"

subsection \<open>Example worlds\<close>

text \<open>
  A deployment on a virtualized cluster where every collaborator succeeds: the user
  exists, the application \<open>guestbook\<close> is new and has no owner.
\<close>

definition calm_world :: world where
  "calm_world =
     \<lparr>LocalState = \<lparr>
        make_appscale_directory = (\<lambda>s. Inr ()),
        get_from_yaml = (\<lambda>s k tag. Inr ''xen''),
        get_login_host = (\<lambda>s k. Inr ''192.168.1.2''),
        get_secret_key = (\<lambda>s k. Inr ''sesame''),
        get_credentials = (\<lambda>s. Inr (''admin@example.com'', ''hunter22'')),
        get_infrastructure = (\<lambda>s k. Inr ''xen''),
        extract_app_to_dir = (\<lambda>s f v. Inr ''/tmp/appscale-app-1''),
        get_username_from_stdin = (\<lambda>s is_admin. Inr ''alice@example.com''),
        get_password_from_stdin = (\<lambda>s. Inr ''hunter22''),
        get_locations_yaml_location = (\<lambda>k. ''/root/.appscale/locations-'' @ k @ ''.yaml''),
        DEFAULT_USER = ''a@a.a'',
        DEFAULT_PASSWORD = ''aaaaaa''\<rparr>,
      RemoteHelper = \<lparr>
        ssh = (\<lambda>s ip k cmd v. Inr ()),
        start_head_node = (\<lambda>s opts my_id layout. Inr (''192.168.1.2'', ''i-1'')),
        copy_local_metadata = (\<lambda>s ip k v. Inr ()),
        sleep_until_port_is_open = (\<lambda>s h p v. Inr ()),
        create_user_accounts = (\<lambda>s u p h k. Inr ()),
        wait_for_machines_to_finish_loading = (\<lambda>s ip k. Inr ()),
        terminate_cloud_infrastructure = (\<lambda>s k v. Inr ()),
        terminate_virtualized_cluster = (\<lambda>s k v. Inr ()),
        copy_app_to_host = (\<lambda>s dir k v. Inr ''/var/apps/guestbook.tar.gz''),
        scp_remote_to_local = (\<lambda>s ip k src dst v. Inr ()),
        APP_DASHBOARD_PORT = 80\<rparr>,
      AppController = \<lparr>
        start_roles_on_nodes = (\<lambda>s c roles. Inr ()),
        get_all_public_ips = (\<lambda>s c. Inr [''192.168.1.2'', ''192.168.1.3'', ''192.168.1.4'']),
        get_status = (\<lambda>s c. Inr ''up''),
        get_uaserver_host = (\<lambda>s c v. Inr ''192.168.1.2''),
        done_uploading = (\<lambda>s c a p. Inr ()),
        update = (\<lambda>s c apps. Inr ())\<rparr>,
      UserApp = \<lparr>
        set_admin_role = (\<lambda>s c u. Inr ()),
        does_user_exist = (\<lambda>s c u. Inr True),
        does_app_exist = (\<lambda>s c a. Inr False),
        get_app_admin = (\<lambda>s c a. Inr None),
        reserve_app_id = (\<lambda>s c u a l. Inr ()),
        get_serving_info = (\<lambda>s c a k. Inr (''192.168.1.2'', 8080)),
        PORT = 4343\<rparr>,
      Misc = \<lparr>
        get_app_id_from_app_config = (\<lambda>s dir. Inr ''guestbook''),
        get_app_runtime_from_app_config = (\<lambda>s dir. Inr ''python''),
        validate_app_id = (\<lambda>s a. Inr ()),
        new_node_layout = (\<lambda>s opts. Inr \<lparr>is_valid = True, is_supported = True, errors = ''[]''\<rparr>),
        uuid4 = (\<lambda>s. Inr ''6f1e''),
        remote_log_tools_state = (\<lambda>s opts my_id st version. Inr ()),
        APPSCALE_VERSION = ''1.6.8'',
        VALID_AGENTS = [''ec2'', ''euca'']\<rparr>\<rparr>"

definition some_options :: options where
  "some_options =
     \<lparr>ips = [(''appengine'', ''192.168.1.5'')], keyname = ''appscale'', verbose = False,
      infrastructure = None, force = False, admin_user = None, admin_pass = None,
      test = False, file_arg = ''guestbook.tar.gz'', email = Some ''alice@example.com'',
      location = ''/tmp/logs''\<rparr>"

text \<open>Nothing has happened yet and no path exists.\<close>

definition fresh :: state where
  "fresh = \<lparr>trace = [], paths = {}\<rparr>"

text \<open>The application \<open>guestbook\<close> exists and belongs to \<open>bob@example.com\<close>.\<close>

definition owned_world :: world where
  "owned_world = calm_world\<lparr>UserApp := (UserApp calm_world)
     \<lparr>does_app_exist := (\<lambda>s c a. Inr True),
      get_app_admin := (\<lambda>s c a. Inr (Some ''bob@example.com''))\<rparr>\<rparr>"

text \<open>The head node refuses SSH connections: stopping the cluster's services raises.\<close>

definition stuck_world :: world where
  "stuck_world = calm_world\<lparr>RemoteHelper := (RemoteHelper calm_world)
     \<lparr>terminate_virtualized_cluster :=
        (\<lambda>s k v. Inl (ShellException ''ssh: connect to host 192.168.1.2 port 22: Connection refused''))\<rparr>\<rparr>"

definition master_options :: options where
  "master_options =
     some_options\<lparr>ips := [(''master'', ''192.168.1.9''), (''appengine'', ''192.168.1.5'')]\<rparr>"

section \<open>Properties\<close>

subsection \<open>Tools\<close>

lemma andthen_Inl [simp]: "m s = (Inl e, s') \<Longrightarrow> andthen m f s = (Inl e, s')"
  by (simp add: andthen_def)

lemma andthen_Inr [simp]: "m s = (Inr x, s') \<Longrightarrow> andthen m f s = f x s'"
  by (simp add: andthen_def)

lemmas prim_defs = 
  LocalState_make_appscale_directory_def LocalState_get_from_yaml_def
  LocalState_get_login_host_def LocalState_get_secret_key_def LocalState_get_credentials_def
  LocalState_get_infrastructure_def LocalState_get_username_from_stdin_def
  LocalState_get_password_from_stdin_def NodeLayout_def uuid_uuid4_def
  AppScaleLogger_remote_log_tools_state_def AppEngineHelper_get_app_id_from_app_config_def
  AppEngineHelper_get_app_runtime_from_app_config_def AppEngineHelper_validate_app_id_def
  RemoteHelper_ssh_def RemoteHelper_start_head_node_def RemoteHelper_copy_local_metadata_def
  RemoteHelper_sleep_until_port_is_open_def RemoteHelper_create_user_accounts_def
  RemoteHelper_wait_for_machines_to_finish_loading_def
  RemoteHelper_terminate_cloud_infrastructure_def RemoteHelper_terminate_virtualized_cluster_def
  RemoteHelper_copy_app_to_host_def RemoteHelper_scp_remote_to_local_def
  acc_start_roles_on_nodes_def acc_get_all_public_ips_def acc_get_status_def
  acc_get_uaserver_host_def acc_done_uploading_def acc_update_def
  uac_set_admin_role_def uac_does_user_exist_def uac_does_app_exist_def uac_get_app_admin_def
  uac_reserve_app_id_def uac_get_serving_info_def
  AppScaleLogger_log_def AppScaleLogger_warn_def AppScaleLogger_success_def time_sleep_def

lemmas eval_defs = prim_defs call_def andthen_def ret_def raise_def emit_def Let_def
  LocalState_extract_app_to_dir_def shutil_rmtree_def os_mkdir_def os_path_exists_def
  LocalState_update_local_metadata_def LocalState_cleanup_appscale_files_def
  LocalState_ensure_appscale_isnt_running_def LocalState_get_locations_yaml_location_def
  AppControllerClient_def UserAppClient_def TAR_GZ_REGEX_search_def

lemmas example_defs = calm_world_def owned_world_def stuck_world_def some_options_def
  master_options_def fresh_def

lemma andthen_assoc: "andthen (andthen m f) k = andthen m (\<lambda>x. andthen (f x) k)"
  by (rule ext) (simp add: andthen_def split: prod.splits sum.splits)

lemma andthen_ret: "andthen (ret x) k = k x"
  by (rule ext) (simp add: andthen_def ret_def)

lemma andthen_case_prod: "andthen (case p of (a, b) \<Rightarrow> f a b) k = (case p of (a, b) \<Rightarrow> andthen (f a b) k)"
  by (cases p) simp

lemma andthen_let: "andthen (let x = v in f x) k = (let x = v in andthen (f x) k)"
  by simp

lemma upload_app_phases:
  "upload_app w options = andthen (upload_app_prepare w options) (upload_app_deploy w options)"
  unfolding upload_app_def upload_app_prepare_def upload_app_deploy_def not_owner_message_def
  by (simp add: andthen_assoc andthen_ret andthen_case_prod Let_def cong: if_cong)

lemmas observer_defs = is_user_query_def is_exists_answer_def is_admin_answer_def

lemma new_events_append [simp]: "new_events s (s\<lparr>trace := trace s @ evs\<rparr>) = evs"
  by (simp add: new_events_def)

lemma call_run:
  "call req wrap f s = (r, s') \<longleftrightarrow>
     r = f s \<and> s' = s\<lparr>trace := trace s @ [Call req (case f s of Inl e \<Rightarrow> Inl e | Inr x \<Rightarrow> Inr (wrap x))]\<rparr>"
  by (auto simp: call_def Let_def)

lemma addsD:
  assumes "adds m P" and "m s = (r, s')"
  shows "trace s' = trace s @ new_events s s' \<and> P r (new_events s s')"
proof -
  from assms(1) [unfolded adds_def]
  have "case m s of (r, s') \<Rightarrow> \<exists>evs. trace s' = trace s @ evs \<and> P r evs"
    by (rule spec)
  with assms(2) obtain evs where "trace s' = trace s @ evs" "P r evs"
    by auto
  then show ?thesis by (simp add: new_events_def)
qed

lemma adds_weaken:
  assumes "adds m P" and "\<And>r evs. P r evs \<Longrightarrow> P' r evs"
  shows "adds m P'"
  using assms unfolding adds_def by (fastforce split: prod.splits)

lemma adds_ret: "adds (ret x) (\<lambda>r evs. r = Inr x \<and> evs = [])"
  by (simp add: adds_def ret_def)

lemma adds_raise: "adds (raise e) (\<lambda>r evs. r = Inl e \<and> evs = [])"
  by (simp add: adds_def raise_def)

lemma adds_emit: "adds (emit e) (\<lambda>r evs. r = Inr () \<and> evs = [e])"
  by (simp add: adds_def emit_def)

lemma adds_call:
  "adds (call req wrap f)
     (\<lambda>r evs. evs = [Call req (case r of Inl e \<Rightarrow> Inl e | Inr x \<Rightarrow> Inr (wrap x))])"
  by (simp add: adds_def call_def Let_def)

lemma adds_andthen:
  assumes "adds m P" and "\<And>x. adds (f x) (Q x)"
  shows "adds (andthen m f)
           (\<lambda>r evs. (\<exists>e. r = Inl e \<and> P (Inl e) evs) \<or>
                     (\<exists>x e1 e2. P (Inr x) e1 \<and> Q x r e2 \<and> evs = e1 @ e2))"
  unfolding adds_def
proof (intro allI)
  fix s
  obtain r1 s1 where m: "m s = (r1, s1)" by (cases "m s")
  from addsD [OF assms(1) m] have 1: "trace s1 = trace s @ new_events s s1" "P r1 (new_events s s1)"
    by simp_all
  show "case andthen m f s of (r, s') \<Rightarrow> \<exists>evs. trace s' = trace s @ evs \<and>
          ((\<exists>e. r = Inl e \<and> P (Inl e) evs) \<or>
           (\<exists>x e1 e2. P (Inr x) e1 \<and> Q x r e2 \<and> evs = e1 @ e2))"
  proof (cases r1)
    case (Inl e)
    with m 1 show ?thesis by (auto simp: andthen_def)
  next
    case (Inr x)
    obtain r2 s2 where f: "f x s1 = (r2, s2)" by (cases "f x s1")
    from addsD [OF assms(2) f] have 2: "trace s2 = trace s1 @ new_events s1 s2" "Q x r2 (new_events s1 s2)"
      by simp_all
    have "trace s2 = trace s @ (new_events s s1 @ new_events s1 s2)"
      using 1(1) 2(1) by simp
    with Inr m f 1 2 show ?thesis
      by (auto simp: andthen_def)
  qed
qed

lemma adds_if:
  assumes "adds a P" and "adds b Q"
  shows "adds (if c then a else b) (\<lambda>r evs. if c then P r evs else Q r evs)"
  using assms by simp

lemma adds_case_prod:
  assumes "\<And>a b. adds (f a b) (Q a b)"
  shows "adds (case p of (a, b) \<Rightarrow> f a b) (\<lambda>r evs. case p of (a, b) \<Rightarrow> Q a b r evs)"
  using assms by (cases p) simp

lemma adds_extract:
  "adds (LocalState_extract_app_to_dir w f v)
     (\<lambda>r evs. evs = [Call (ExtractAppToDir f v) (case r of Inl e \<Rightarrow> Inl e | Inr x \<Rightarrow> Inr (RStr x))])"
  by (auto simp: adds_def LocalState_extract_app_to_dir_def andthen_def call_def Let_def split: sum.splits)

lemma adds_rmtree: "adds (shutil_rmtree p) (\<lambda>r evs. evs = [])"
  by (simp add: adds_def shutil_rmtree_def)

lemmas adds_rules = adds_andthen adds_if adds_case_prod adds_ret adds_raise adds_emit adds_call
  adds_extract adds_rmtree

lemma requests_simps [simp]:
  "requests [] = []"
  "requests (e # evs) = (case e of Call req _ \<Rightarrow> [req] | _ \<Rightarrow> []) @ requests evs"
  "requests (xs @ ys) = requests xs @ requests ys"
  by (simp_all add: requests_def)

lemma run_andthen:
  assumes "andthen m f s = (r, s')"
  shows "(\<exists>e. m s = (Inl e, s') \<and> r = Inl e) \<or> (\<exists>x s1. m s = (Inr x, s1) \<and> f x s1 = (r, s'))"
  using assms by (auto simp: andthen_def split: prod.splits sum.splits)

lemma new_events_trans:
  assumes "trace s1 = trace s @ a" and "trace s2 = trace s1 @ b"
  shows "new_events s s2 = a @ b"
  using assms by (simp add: new_events_def)


subsection \<open>add_instances\<close>

text \<open>
  C3. Whenever the requested roster has the role \<open>master\<close>, \<open>add_instances\<close> raises
  \<open>BadConfigurationException\<close> and the state is untouched: no collaborator call (SSH
  probe, controller RPC or any other) has been made.
\<close>

theorem add_instances_rejects_master:
  assumes "''master'' \<in> set (map fst (ips options))"
  shows "add_instances w options s =
           (Inl (BadConfigurationException
                  ''Cannot add master nodes to an already running AppScale deployment.''), s)"
  using assms by (simp add: add_instances_def raise_def)

text \<open>A roster with a \<open>master\<close> and an \<open>appengine\<close> node is rejected.\<close>

theorem add_instances_rejects_master_witness:
  "''master'' \<in> set (map fst (ips master_options)) \<and>
   add_instances calm_world master_options fresh =
     (Inl (BadConfigurationException
            ''Cannot add master nodes to an already running AppScale deployment.''), fresh)"
  using add_instances_rejects_master [of master_options calm_world fresh]
  by (simp add: example_defs)


subsection \<open>terminate_instances\<close>

text \<open>
  C4. Whenever no deployment metadata exists for the keyname, \<open>terminate_instances\<close>
  raises \<open>AppScaleException\<close> and the state is untouched: no collaborator call has been
  made.
\<close>

theorem terminate_instances_requires_metadata:
  assumes "LocalState_get_locations_yaml_location w (keyname options) \<notin> paths s"
  shows "terminate_instances w options s =
           (Inl (AppScaleException (''AppScale is not running with the keyname '' @ keyname options)), s)"
  using assms by (simp add: terminate_instances_def os_path_exists_def andthen_def raise_def)

text \<open>On a machine where nothing was started, there is nothing to terminate.\<close>

theorem terminate_instances_requires_metadata_witness:
  "LocalState_get_locations_yaml_location calm_world (keyname some_options) \<notin> paths fresh \<and>
   terminate_instances calm_world some_options fresh =
     (Inl (AppScaleException ''AppScale is not running with the keyname appscale''), fresh)"
  using terminate_instances_requires_metadata [of calm_world some_options fresh]
  by (simp add: example_defs LocalState_get_locations_yaml_location_def)

text \<open>
  C2, as amended. After \<open>run_instances\<close>, whatever its outcome, \<open>terminate_instances\<close>
  leaves no local metadata record for the keyname whenever none of the collaborator calls
  it made raised: what the remote teardown returned is ignored, so the record is deleted
  whatever the teardown achieved, as long as the call returned.
\<close>

theorem terminate_after_run_removes_metadata:
  assumes "run_instances w options s = (r1, s1)"
    and "terminate_instances w options s1 = (r2, s2)"
    and "filter raised (new_events s1 s2) = []"
  shows "LocalState_get_locations_yaml_location w (keyname options) \<notin> paths s2"
  using assms(2,3)
  by (auto simp: terminate_instances_def os_path_exists_def andthen_def raise_def call_def Let_def
      RemoteHelper_terminate_cloud_infrastructure_def RemoteHelper_terminate_virtualized_cluster_def
      LocalState_get_infrastructure_def LocalState_cleanup_appscale_files_def
      AppScaleLogger_success_def emit_def new_events_def raised_def
      split: if_splits sum.splits)

lemma calm_run:
  "fst (run_instances calm_world some_options fresh) = Inr () \<and>
   paths (snd (run_instances calm_world some_options fresh)) = {''/root/.appscale/locations-appscale.yaml''}"
  by (simp add: run_instances_def admin_credentials_def eval_defs example_defs)

lemma stuck_run:
  "fst (run_instances stuck_world some_options fresh) = Inr () \<and>
   paths (snd (run_instances stuck_world some_options fresh)) = {''/root/.appscale/locations-appscale.yaml''}"
  by (simp add: run_instances_def admin_credentials_def eval_defs example_defs)

text \<open>
  C2 as stated fails. On a cluster whose head node refuses SSH, \<open>run_instances\<close> succeeds
  and writes the metadata; \<open>terminate_virtualized_cluster\<close> then raises, the exception
  leaves \<open>terminate_instances\<close> before line 386, and the metadata record is still there.
\<close>

theorem terminate_after_run_keeps_metadata_counterexample:
  "fst (run_instances stuck_world some_options fresh) = Inr () \<and>
   fst (terminate_instances stuck_world some_options (snd (run_instances stuck_world some_options fresh))) =
     Inl (ShellException ''ssh: connect to host 192.168.1.2 port 22: Connection refused'') \<and>
   LocalState_get_locations_yaml_location stuck_world (keyname some_options) \<in>
     paths (snd (terminate_instances stuck_world some_options
              (snd (run_instances stuck_world some_options fresh))))"
proof -
  obtain r1 s1 where run: "run_instances stuck_world some_options fresh = (r1, s1)"
    by (cases "run_instances stuck_world some_options fresh")
  with stuck_run have s1: "r1 = Inr ()" "paths s1 = {''/root/.appscale/locations-appscale.yaml''}"
    by simp_all
  have "fst (terminate_instances stuck_world some_options s1) =
          Inl (ShellException ''ssh: connect to host 192.168.1.2 port 22: Connection refused'') \<and>
        LocalState_get_locations_yaml_location stuck_world (keyname some_options) \<in>
          paths (snd (terminate_instances stuck_world some_options s1))"
    using s1(2) by (simp add: terminate_instances_def eval_defs example_defs)
  with run s1 show ?thesis by simp
qed


subsection \<open>upload_app\<close>

lemma prepare_adds:
  "adds (upload_app_prepare w options)
     (\<lambda>r evs. filter mutates_app (requests evs) = [] \<and> Sleep 20 \<notin> set evs \<and>
         (case r of Inl e \<Rightarrow> filter is_admin_answer evs = [] | Inr ctx \<Rightarrow> prepared ctx evs))"
  unfolding upload_app_prepare_def prim_defs Let_def
  apply (rule adds_weaken)
   apply (rule adds_rules)+
  apply (auto simp: mutates_app_def prepared_def observer_defs split: if_splits sum.splits)
  done

lemma deploy_adds: "adds (upload_app_deploy w options ctx) (deployed options ctx)"
  unfolding upload_app_deploy_def prim_defs Let_def
  apply (rule adds_weaken)
   apply (rule adds_rules)+
  apply (auto simp: deployed_def deployed_events_def rejected_def uploading_line_def
      reachable_line_def observer_defs split: if_splits sum.splits)
  done

lemma upload_app_cases:
  assumes "upload_app w options s = (r, s')"
  shows "(\<exists>e. r = Inl e \<and> filter is_admin_answer (new_events s s') = [] \<and>
              filter mutates_app (requests (new_events s s')) = []) \<or>
         (\<exists>ctx evs1 evs2.
            new_events s s' = evs1 @ evs2 \<and> filter mutates_app (requests evs1) = [] \<and>
            Sleep 20 \<notin> set evs1 \<and> prepared ctx evs1 \<and> deployed options ctx r evs2)"
proof -
  from assms have "andthen (upload_app_prepare w options) (upload_app_deploy w options) s = (r, s')"
    by (simp add: upload_app_phases)
  then consider (early) e where "upload_app_prepare w options s = (Inl e, s')" "r = Inl e"
    | (checked) ctx s1 where "upload_app_prepare w options s = (Inr ctx, s1)"
        "upload_app_deploy w options ctx s1 = (r, s')"
    using run_andthen by blast
  then show ?thesis
  proof cases
    case early
    from addsD [OF prepare_adds early(1)] early(2) show ?thesis by simp
  next
    case checked
    from addsD [OF prepare_adds checked(1)]
    have p: "trace s1 = trace s @ new_events s s1"
      "filter mutates_app (requests (new_events s s1)) = []"
      "Sleep 20 \<notin> set (new_events s s1)" "prepared ctx (new_events s s1)"
      by simp_all
    from addsD [OF deploy_adds checked(2)]
    have d: "trace s' = trace s1 @ new_events s1 s'" "deployed options ctx r (new_events s1 s')"
      by simp_all
    have "new_events s s' = new_events s s1 @ new_events s1 s'"
      using p(1) d(1) by (rule new_events_trans)
    with p d show ?thesis by blast
  qed
qed

lemma mem_filter_singleton:
  assumes "x \<in> set xs" and "P x" and "filter P xs = [y]"
  shows "x = y"
proof -
  from assms(1,2) have "x \<in> set (filter P xs)" by simp
  with assms(3) show ?thesis by simp
qed

lemma mem_filter_empty:
  assumes "x \<in> set xs" and "P x" and "filter P xs = []"
  shows False
proof -
  from assms(1,2) have "x \<in> set (filter P xs)" by simp
  with assms(3) show ?thesis by simp
qed

lemma upload_app_checked_filters:
  assumes "new = evs1 @ evs2" and "prepared ctx evs1" and "deployed options ctx r evs2"
  shows "\<exists>answer. filter is_user_query new =
           [Call (DoesUserExist (ctx_userappclient ctx) (ctx_username ctx)) answer]"
    and "filter is_admin_answer new =
           [Call (GetAppAdmin (ctx_userappclient ctx) (ctx_app_id ctx)) (Inr (RStrOpt (ctx_app_admin ctx)))]"
    and "filter is_exists_answer new =
           [Call (DoesAppExist (ctx_userappclient ctx) (ctx_app_id ctx)) (Inr (RBool (ctx_app_exists ctx)))]"
  using assms by (simp_all add: prepared_def deployed_def)

text \<open>
  C1. Whenever the registry answers \<open>get_app_admin\<close> with an owner other than the
  username that \<open>upload_app\<close> resolved (the one it asked \<open>does_user_exist\<close> about),
  \<open>upload_app\<close> raises the ownership \<open>AppScaleException\<close> and has called none of
  \<open>reserve_app_id\<close>, \<open>done_uploading\<close> and \<open>update\<close>.
\<close>

theorem upload_app_rejects_foreign_owner:
  assumes run: "upload_app w options s = (r, s')"
    and asked: "Call (DoesUserExist uac username) answer \<in> set (new_events s s')"
    and owned: "Call (GetAppAdmin uac' app) (Inr (RStrOpt (Some owner))) \<in> set (new_events s s')"
    and diff: "owner \<noteq> username"
  shows "r = Inl (AppScaleException not_owner_message) \<and>
         filter mutates_app (requests (new_events s s')) = []"
proof -
  have a: "is_user_query (Call (DoesUserExist uac username) answer)"
    by (simp add: is_user_query_def)
  have o: "is_admin_answer (Call (GetAppAdmin uac' app) (Inr (RStrOpt (Some owner))))"
    by (simp add: is_admin_answer_def)
  from upload_app_cases [OF run] show ?thesis
  proof (elim disjE exE conjE)
    fix e assume "filter is_admin_answer (new_events s s') = []"
    with owned o have False by (rule mem_filter_empty)
    then show ?thesis ..
  next
    fix ctx evs1 evs2
    assume new: "new_events s s' = evs1 @ evs2"
      and quiet: "filter mutates_app (requests evs1) = []"
      and p: "prepared ctx evs1" and d: "deployed options ctx r evs2"
    from upload_app_checked_filters(1) [OF new p d] obtain answer' where
      "filter is_user_query (new_events s s') =
         [Call (DoesUserExist (ctx_userappclient ctx) (ctx_username ctx)) answer']" ..
    with asked a have "Call (DoesUserExist uac username) answer =
        Call (DoesUserExist (ctx_userappclient ctx) (ctx_username ctx)) answer'"
      by (rule mem_filter_singleton)
    then have u: "username = ctx_username ctx" by simp
    from owned o upload_app_checked_filters(2) [OF new p d]
    have "Call (GetAppAdmin uac' app) (Inr (RStrOpt (Some owner))) =
        Call (GetAppAdmin (ctx_userappclient ctx) (ctx_app_id ctx)) (Inr (RStrOpt (ctx_app_admin ctx)))"
      by (rule mem_filter_singleton)
    then have "ctx_app_admin ctx = Some owner" by simp
    with u diff have "rejected ctx" by (simp add: rejected_def)
    with d new quiet show ?thesis by (simp add: deployed_def)
  qed
qed

text \<open>
  C10. When \<open>get_app_admin\<close> answers \<open>None\<close> the upload goes on (the next step logs the
  upload), whatever the resolved username; and \<open>upload_app\<close> stops at the ownership
  check with the ownership exception exactly when the answer is an owner other than the
  resolved username.
\<close>

theorem upload_app_ownership_check:
  assumes run: "upload_app w options s = (r, s')"
    and asked: "Call (DoesUserExist uac username) answer \<in> set (new_events s s')"
    and admin: "Call (GetAppAdmin uac' app) (Inr (RStrOpt app_admin)) \<in> set (new_events s s')"
  shows "(app_admin = None \<longrightarrow>
            Log (''Uploading new version of app '' @ app) \<in> set (new_events s s') \<or>
            Log (''Uploading initial version of app '' @ app) \<in> set (new_events s s')) \<and>
         ((r = Inl (AppScaleException not_owner_message) \<and>
           last (new_events s s') = Call (GetAppAdmin uac' app) (Inr (RStrOpt app_admin))) =
          (\<exists>owner. app_admin = Some owner \<and> owner \<noteq> username))"
proof -
  have a: "is_user_query (Call (DoesUserExist uac username) answer)"
    by (simp add: is_user_query_def)
  have o: "is_admin_answer (Call (GetAppAdmin uac' app) (Inr (RStrOpt app_admin)))"
    by (simp add: is_admin_answer_def)
  from upload_app_cases [OF run] show ?thesis
  proof (elim disjE exE conjE)
    fix e assume "filter is_admin_answer (new_events s s') = []"
    with admin o have False by (rule mem_filter_empty)
    then show ?thesis ..
  next
    fix ctx evs1 evs2
    assume new: "new_events s s' = evs1 @ evs2"
      and p: "prepared ctx evs1" and d: "deployed options ctx r evs2"
    from upload_app_checked_filters(1) [OF new p d] obtain answer' where
      "filter is_user_query (new_events s s') =
         [Call (DoesUserExist (ctx_userappclient ctx) (ctx_username ctx)) answer']" ..
    with asked a have "Call (DoesUserExist uac username) answer =
        Call (DoesUserExist (ctx_userappclient ctx) (ctx_username ctx)) answer'"
      by (rule mem_filter_singleton)
    then have u: "username = ctx_username ctx" by simp
    from admin o upload_app_checked_filters(2) [OF new p d]
    have "Call (GetAppAdmin uac' app) (Inr (RStrOpt app_admin)) =
        Call (GetAppAdmin (ctx_userappclient ctx) (ctx_app_id ctx)) (Inr (RStrOpt (ctx_app_admin ctx)))"
      by (rule mem_filter_singleton)
    then have c: "uac' = ctx_userappclient ctx" "app = ctx_app_id ctx" "app_admin = ctx_app_admin ctx"
      by simp_all
    show ?thesis
    proof (cases "rejected ctx")
      case True
      with d have "r = Inl (AppScaleException not_owner_message)" "evs2 = []"
        by (simp_all add: deployed_def)
      with new p c u True show ?thesis
        by (auto simp: prepared_def rejected_def)
    next
      case False
      with d obtain rest where rest: "evs2 = Log (uploading_line ctx) # rest"
        by (auto simp: deployed_def)
      have l: "last (new_events s s') \<in> set evs2"
        using new rest by simp
      have "\<not> is_admin_answer (last (new_events s s'))"
      proof
        assume "is_admin_answer (last (new_events s s'))"
        with l have "last (new_events s s') \<in> set (filter is_admin_answer evs2)"
          by simp
        with d show False by (simp add: deployed_def)
      qed
      with o have "last (new_events s s') \<noteq> Call (GetAppAdmin uac' app) (Inr (RStrOpt app_admin))"
        by auto
      moreover have "Log (uploading_line ctx) \<in> set (new_events s s')"
        using new rest by simp
      ultimately show ?thesis
        using False c u by (auto simp: rejected_def uploading_line_def split: if_splits)
    qed
  qed
qed

text \<open>
  C8. When \<open>upload_app\<close> returns \<open>(h, p)\<close>, that pair is what \<open>get_serving_info\<close> answered
  for the application; the last three events are that answer, the wait until port \<open>p\<close>
  of \<open>h\<close> is open (which returned), and the success message; and when \<open>does_app_exist\<close>
  had answered \<open>True\<close>, \<open>time.sleep(20)\<close> comes right before them (and not at all
  otherwise).
\<close>

theorem upload_app_returns_serving_address:
  assumes run: "upload_app w options s = (Inr (h, p), s')"
  shows "\<exists>before uac app existed.
           new_events s s' =
             before @ (if existed then [Sleep 20] else []) @
             [Call (GetServingInfo uac app (keyname options)) (Inr (RHostPort h p)),
              Call (SleepUntilPortIsOpen h p (verbose options)) (Inr RNone),
              Success (''Your app can be reached at the following URL: http://'' @ h @ '':'' @ str_int p)] \<and>
           Call (DoesAppExist uac app) (Inr (RBool existed)) \<in> set before \<and>
           Sleep 20 \<notin> set before"
proof -
  from upload_app_cases [OF run] obtain ctx evs1 evs2 where
    new: "new_events s s' = evs1 @ evs2" and nosleep: "Sleep 20 \<notin> set evs1"
    and p: "prepared ctx evs1" and d: "deployed options ctx (Inr (h, p)) evs2"
    by auto
  from d have nr: "\<not> rejected ctx" by (auto simp: deployed_def)
  with d obtain remote_path where evs2: "evs2 = deployed_events options ctx remote_path h p"
    by (auto simp: deployed_def)
  define mid where "mid = Log (uploading_line ctx) #
     (if ctx_app_exists ctx then []
      else [Call (ReserveAppId (ctx_userappclient ctx) (ctx_username ctx)
                    (ctx_app_id ctx) (ctx_app_language ctx)) (Inr RNone)]) @
     [Call (CopyAppToHost (ctx_file_location ctx) (keyname options) (verbose options))
        (Inr (RStr remote_path)),
      Call (DoneUploading (ctx_acc ctx) (ctx_app_id ctx) remote_path) (Inr RNone),
      Call (Update (ctx_acc ctx) [ctx_app_id ctx]) (Inr RNone),
      Log ''Please wait for your app to start serving.'']"
  have 1: "new_events s s' = (evs1 @ mid) @ (if ctx_app_exists ctx then [Sleep 20] else []) @
             [Call (GetServingInfo (ctx_userappclient ctx) (ctx_app_id ctx) (keyname options)) (Inr (RHostPort h p)),
              Call (SleepUntilPortIsOpen h p (verbose options)) (Inr RNone),
              Success (''Your app can be reached at the following URL: http://'' @ h @ '':'' @ str_int p)]"
    using new evs2 by (simp add: deployed_events_def mid_def reachable_line_def)
  have "Call (DoesAppExist (ctx_userappclient ctx) (ctx_app_id ctx)) (Inr (RBool (ctx_app_exists ctx)))
          \<in> set (filter is_exists_answer evs1)"
    using p by (simp add: prepared_def)
  then have 2: "Call (DoesAppExist (ctx_userappclient ctx) (ctx_app_id ctx)) (Inr (RBool (ctx_app_exists ctx)))
          \<in> set (evs1 @ mid)"
    by simp
  have 3: "Sleep 20 \<notin> set (evs1 @ mid)"
    using nosleep by (simp add: mid_def)
  from 1 2 3 show ?thesis by blast
qed


end
